theory Spec2Isabelle
  imports Main "HOL-Library.Word"
begin

section \<open>Retry policies of gax (retry\_policy.h)\<close>

text \<open>
  The header declares the abstract class \<open>RetryPolicy<StatusType, RetryablePolicy>\<close> with
  the virtual members \<open>clone\<close> and \<open>OnFailure\<close>, and two concrete policies:
  \<open>LimitedErrorCountRetryPolicy\<close> and \<open>LimitedDurationRetryPolicy\<close>.

  The template parameters are parameters of the model:
  \<^item> \<open>StatusType\<close> is a type variable \<open>'s\<close>;
  \<open>RetryablePolicy::IsPermanentFailure\<close> is a function \<open>'s \<Rightarrow> bool\<close> handed to
    \<open>OnFailure\<close>;
  \<^item> \<open>Clock::now()\<close> is a read of the outside world: each operation that may read the clock
    takes the reading \<open>now\<close> it would get as an argument.

  The C++ type \<open>int\<close> is a 32-bit two's complement integer, \<open>32 word\<close>, compared with the
  signed order \<open><s\<close> and read with \<open>sint\<close>. Overflow of a signed \<open>int\<close> is undefined
  behaviour in C++: the model reports it as the fault \<open>SignedOverflow\<close> instead of a value.
  The tick counts of \<open>std::chrono\<close> are 64-bit two's complement integers, \<open>64 word\<close>,
  with the same reading of overflow.
  A member \<open>m_\<close> of the source is the record field \<open>m\<close>.
\<close>

subsection \<open>Faults\<close>

datatype fault = SignedOverflow | InvalidPointer

definition INT_MAX :: "32 word" where
  "INT_MAX = 0x7FFFFFFF"

subsection \<open>LimitedErrorCountRetryPolicy\<close>

record LimitedErrorCountRetryPolicy =
  failure_count :: "32 word"
  max_failures :: "32 word"

text \<open>\<open>LimitedErrorCountRetryPolicy(int max_failures)\<close>: no check, no exception.\<close>

definition LimitedErrorCountRetryPolicy_ctor :: "32 word \<Rightarrow> LimitedErrorCountRetryPolicy" where
  "LimitedErrorCountRetryPolicy_ctor n =
     \<lparr>failure_count = 0, max_failures = n\<rparr>"

text \<open>The copy and the move constructor both delegate to the constructor above with
  \<open>rhs.max_failures_\<close>; the count of \<open>rhs\<close> is not read.\<close>

definition LimitedErrorCountRetryPolicy_copy ::
    "LimitedErrorCountRetryPolicy \<Rightarrow> LimitedErrorCountRetryPolicy" where
  "LimitedErrorCountRetryPolicy_copy rhs = LimitedErrorCountRetryPolicy_ctor (max_failures rhs)"

text \<open>
  \<open>return (!RetryablePolicy::IsPermanentFailure(status) && (failure_count_++) < max_failures_);\<close>
  The right operand of \<open>&&\<close> is evaluated only when the left one is true. The post-increment
  yields the old count for the comparison and stores the old count plus one; at \<open>INT_MAX\<close>
  the increment overflows.
\<close>

definition LimitedErrorCount_OnFailure ::
    "('s \<Rightarrow> bool) \<Rightarrow> 's \<Rightarrow> LimitedErrorCountRetryPolicy
      \<Rightarrow> fault + (bool \<times> LimitedErrorCountRetryPolicy)" where
  "LimitedErrorCount_OnFailure IsPermanentFailure status this =
     (if IsPermanentFailure status then Inr (False, this)
      else if failure_count this = INT_MAX then Inl SignedOverflow
      else Inr (failure_count this <s max_failures this,
                this\<lparr>failure_count := failure_count this + 1\<rparr>))"

subsection \<open>LimitedDurationRetryPolicy\<close>

text \<open>
  Modelled from the spec: the types \<open>std::chrono::milliseconds\<close> and
  \<open>std::chrono::system_clock::time_point\<close> of the standard header \<open><chrono>\<close>, which is not
  part of the repository. The spec calls them duration and timestamp, with
  deadline = construction time + duration and the comparison "strictly before". Their
  representation is that of the library: a duration in milliseconds is a 64-bit signed
  count of milliseconds, a time point of the system clock is a 64-bit signed count of
  nanoseconds since the epoch. Time points are compared with the signed order.
\<close>

type_synonym milliseconds = "64 word"
type_synonym time_point = "64 word"

definition in_int64 :: "int \<Rightarrow> bool" where
  "in_int64 k = (- 9223372036854775808 \<le> k \<and> k \<le> 9223372036854775807)"

text \<open>
  Modelled from the spec: \<open>operator+\<close> of a duration and a time point (header
  \<open><chrono>\<close>), the spec's "construction time + configured duration". The library converts
  the milliseconds to the unit of the time point, a multiplication by 1000000, and adds
  the two counts, both in 64-bit signed arithmetic. \<open>deadline_representable d now\<close> says
  that neither operation overflows; where one does, the sum is undefined.
\<close>

definition deadline_representable :: "milliseconds \<Rightarrow> time_point \<Rightarrow> bool" where
  "deadline_representable d now =
     (in_int64 (sint d * 1000000) \<and> in_int64 (sint d * 1000000 + sint now))"

definition chrono_plus :: "milliseconds \<Rightarrow> time_point \<Rightarrow> fault + time_point" where
  "chrono_plus d now =
     (if deadline_representable d now then Inr (d * 1000000 + now) else Inl SignedOverflow)"

record LimitedDurationRetryPolicy =
  max_duration :: milliseconds
  deadline :: time_point

text \<open>\<open>LimitedDurationRetryPolicy(duration_t max_duration)
    : max_duration_(max_duration), deadline_(max_duration_ + Clock::now())\<close>.
  The members are initialised in the order of their declaration, \<open>max_duration_\<close> first;
  the argument is the duration already converted to milliseconds.\<close>

definition LimitedDurationRetryPolicy_ctor ::
    "time_point \<Rightarrow> milliseconds \<Rightarrow> fault + LimitedDurationRetryPolicy" where
  "LimitedDurationRetryPolicy_ctor now d =
     (case chrono_plus d now of
        Inl e \<Rightarrow> Inl e
      | Inr t \<Rightarrow> Inr \<lparr>max_duration = d, deadline = t\<rparr>)"

definition LimitedDurationRetryPolicy_copy ::
    "time_point \<Rightarrow> LimitedDurationRetryPolicy \<Rightarrow> fault + LimitedDurationRetryPolicy" where
  "LimitedDurationRetryPolicy_copy now rhs = LimitedDurationRetryPolicy_ctor now (max_duration rhs)"

text \<open>
  \<open>return (!RetryablePolicy::IsPermanentFailure(status) && Clock::now() < deadline_);\<close>
  No member is written.
\<close>

definition LimitedDuration_OnFailure ::
    "('s \<Rightarrow> bool) \<Rightarrow> time_point \<Rightarrow> 's \<Rightarrow> LimitedDurationRetryPolicy
      \<Rightarrow> fault + (bool \<times> LimitedDurationRetryPolicy)" where
  "LimitedDuration_OnFailure IsPermanentFailure now status this =
     (if IsPermanentFailure status then Inr (False, this)
      else Inr (now <s deadline this, this))"

subsection \<open>RetryPolicy: virtual dispatch and objects\<close>

text \<open>
  The two classes derive from \<open>RetryPolicy\<close>; a call through the base class runs the
  override of the object's dynamic class. The closed set of classes is a datatype.
\<close>

datatype RetryPolicy =
    LimitedErrorCount LimitedErrorCountRetryPolicy
  | LimitedDuration LimitedDurationRetryPolicy

fun RetryPolicy_OnFailure ::
    "('s \<Rightarrow> bool) \<Rightarrow> time_point \<Rightarrow> 's \<Rightarrow> RetryPolicy \<Rightarrow> fault + (bool \<times> RetryPolicy)" where
  "RetryPolicy_OnFailure IsPermanentFailure now status (LimitedErrorCount p) =
     (case LimitedErrorCount_OnFailure IsPermanentFailure status p of
        Inl e \<Rightarrow> Inl e
      | Inr (r, p') \<Rightarrow> Inr (r, LimitedErrorCount p'))"
| "RetryPolicy_OnFailure IsPermanentFailure now status (LimitedDuration q) =
     (case LimitedDuration_OnFailure IsPermanentFailure now status q of
        Inl e \<Rightarrow> Inl e
      | Inr (r, q') \<Rightarrow> Inr (r, LimitedDuration q'))"

text \<open>The object that each override of \<open>clone\<close> allocates: the copy constructor of the
  object's own class, applied to the object.\<close>

fun RetryPolicy_copy :: "time_point \<Rightarrow> RetryPolicy \<Rightarrow> fault + RetryPolicy" where
  "RetryPolicy_copy now (LimitedErrorCount p) =
     Inr (LimitedErrorCount (LimitedErrorCountRetryPolicy_copy p))"
| "RetryPolicy_copy now (LimitedDuration q) =
     (case LimitedDurationRetryPolicy_copy now q of
        Inl e \<Rightarrow> Inl e
      | Inr q' \<Rightarrow> Inr (LimitedDuration q'))"

text \<open>
  Objects live in a store: the list of all policy objects constructed so far, an object's
  address being its index. \<open>new\<close> appends, so the address it returns is one that no
  earlier object has. \<open>clone\<close> is a \<open>const\<close> member: it writes nothing but the new
  object, and returns the new object's address (the \<open>unique_ptr\<close>). \<open>OnFailure\<close> writes
  the object it is called on. A call on an address that holds no object is the fault
  \<open>InvalidPointer\<close>. Exhaustion of memory is outside the model.
\<close>

type_synonym heap = "RetryPolicy list"

definition clone :: "time_point \<Rightarrow> nat \<Rightarrow> heap \<Rightarrow> fault + (nat \<times> heap)" where
  "clone now this h =
     (if this < length h then
        (case RetryPolicy_copy now (h ! this) of
           Inl e \<Rightarrow> Inl e
         | Inr c \<Rightarrow> Inr (length h, h @ [c]))
      else Inl InvalidPointer)"

definition OnFailure ::
    "('s \<Rightarrow> bool) \<Rightarrow> time_point \<Rightarrow> 's \<Rightarrow> nat \<Rightarrow> heap \<Rightarrow> fault + (bool \<times> heap)" where
  "OnFailure IsPermanentFailure now status this h =
     (if this < length h then
        (case RetryPolicy_OnFailure IsPermanentFailure now status (h ! this) of
           Inl e \<Rightarrow> Inl e
         | Inr (r, p') \<Rightarrow> Inr (r, h[this := p']))
      else Inl InvalidPointer)"

subsection \<open>Sequences of calls\<close>

text \<open>
  The owner of a policy calls \<open>OnFailure\<close> once for each failed attempt, one call after
  the other. \<open>LimitedErrorCount_OnFailure_seq\<close> feeds the statuses of a sequence of failures
  to an error-count policy and collects the answers; a fault ends the sequence.
\<close>

fun LimitedErrorCount_OnFailure_seq ::
    "('s \<Rightarrow> bool) \<Rightarrow> 's list \<Rightarrow> LimitedErrorCountRetryPolicy
      \<Rightarrow> fault + (bool list \<times> LimitedErrorCountRetryPolicy)" where
  "LimitedErrorCount_OnFailure_seq IsPermanentFailure [] this = Inr ([], this)"
| "LimitedErrorCount_OnFailure_seq IsPermanentFailure (status # rest) this =
     (case LimitedErrorCount_OnFailure IsPermanentFailure status this of
        Inl e \<Rightarrow> Inl e
      | Inr (r, this') \<Rightarrow>
          (case LimitedErrorCount_OnFailure_seq IsPermanentFailure rest this' of
             Inl e \<Rightarrow> Inl e
           | Inr (rs, this'') \<Rightarrow> Inr (r # rs, this'')))"

text \<open>
  The operations of the interface on one object, each with the clock reading of its call,
  and a sequence of them on the object at address \<open>this\<close>.
\<close>

datatype 's call = OnFailure_call time_point 's | clone_call time_point

fun calls :: "('s \<Rightarrow> bool) \<Rightarrow> 's call list \<Rightarrow> nat \<Rightarrow> heap \<Rightarrow> fault + heap" where
  "calls IsPermanentFailure [] this h = Inr h"
| "calls IsPermanentFailure (OnFailure_call now status # cs) this h =
     (case OnFailure IsPermanentFailure now status this h of
        Inl e \<Rightarrow> Inl e
      | Inr (r, h') \<Rightarrow> calls IsPermanentFailure cs this h')"
| "calls IsPermanentFailure (clone_call now # cs) this h =
     (case clone now this h of
        Inl e \<Rightarrow> Inl e
      | Inr (a, h') \<Rightarrow> calls IsPermanentFailure cs this h')"

subsection \<open>An instantiation of the template parameters\<close>

text \<open>
  The concrete scenarios need a status type and a classifier: two statuses, one of each
  class.
\<close>

datatype example_status = Transient | Permanent

fun example_IsPermanentFailure :: "example_status \<Rightarrow> bool" where
  "example_IsPermanentFailure Transient = False"
| "example_IsPermanentFailure Permanent = True"

section \<open>The signed counter\<close>

text \<open>
  Reading a 32-bit \<open>int\<close> as a number: the range of \<open>sint\<close>, and the increment
  below \<open>INT_MAX\<close>, which is the only one the language defines.
\<close>

lemma sint_INT_MAX: "sint INT_MAX = 2147483647"
  by (simp add: INT_MAX_def)

lemma sint_bounds32: "- 2147483648 \<le> sint c \<and> sint c \<le> 2147483647" for c :: "32 word"
  using sint_ge [of c] sint_lt [of c] by simp

lemma sint_increment:
  fixes c :: "32 word"
  assumes "c \<noteq> INT_MAX"
  shows "sint (c + 1) = sint c + 1"
proof -
  have "sint c \<noteq> sint INT_MAX"
    using assms signed_word_eqI [of c INT_MAX] by blast
  then have "sint c < 2147483647"
    using sint_bounds32 [of c] by (simp add: sint_INT_MAX)
  moreover have "- 2147483648 \<le> sint c"
    using sint_bounds32 [of c] by simp
  ultimately have "signed_take_bit 31 (sint c + 1) = sint c + 1"
    by (simp add: signed_take_bit_int_eq_self)
  then show ?thesis
    by (simp add: sint_word_add)
qed

lemma not_INT_MAX_iff: "c \<noteq> INT_MAX \<longleftrightarrow> sint c < 2147483647" for c :: "32 word"
proof
  assume "c \<noteq> INT_MAX"
  then have "sint c \<noteq> sint INT_MAX"
    using signed_word_eqI [of c INT_MAX] by blast
  then show "sint c < 2147483647"
    using sint_bounds32 [of c] by (simp add: sint_INT_MAX)
next
  assume "sint c < 2147483647"
  then show "c \<noteq> INT_MAX"
    using sint_INT_MAX by auto
qed

section \<open>Calls and sequences of calls\<close>

text \<open>
  A transient failure on a counter below \<open>INT_MAX\<close> compares the old count with the
  limit and stores the old count plus one.
\<close>

lemma OnFailure_transient:
  assumes "\<not> P s" and "sint (failure_count p) < 2147483647"
  shows "LimitedErrorCount_OnFailure P s p =
           Inr (sint (failure_count p) < sint (max_failures p),
                p\<lparr>failure_count := failure_count p + 1\<rparr>)"
  using assms by (simp add: LimitedErrorCount_OnFailure_def not_INT_MAX_iff word_sless_alt)

lemma OnFailure_seq_append:
  "LimitedErrorCount_OnFailure_seq P (xs @ ys) p =
     (case LimitedErrorCount_OnFailure_seq P xs p of
        Inl e \<Rightarrow> Inl e
      | Inr (rs, p') \<Rightarrow>
          (case LimitedErrorCount_OnFailure_seq P ys p' of
             Inl e \<Rightarrow> Inl e
           | Inr (rs', p'') \<Rightarrow> Inr (rs @ rs', p'')))"
  by (induction xs arbitrary: p) (auto split: sum.splits prod.splits)

lemma OnFailure_seq_transient:
  assumes "\<forall>s \<in> set ss. \<not> P s"
    and "sint (failure_count p) + int (length ss) \<le> 2147483647"
  shows "LimitedErrorCount_OnFailure_seq P ss p =
           Inr (map (\<lambda>i. sint (failure_count p) + int i < sint (max_failures p)) [0..<length ss],
                p\<lparr>failure_count := failure_count p + of_nat (length ss)\<rparr>)"
  using assms
proof (induction ss arbitrary: p)
  case Nil
  show ?case by simp
next
  case (Cons s ss)
  let ?p' = "p\<lparr>failure_count := failure_count p + 1\<rparr>"
  from Cons.prems have lt: "sint (failure_count p) < 2147483647" and tr: "\<not> P s"
    by simp_all
  have step: "LimitedErrorCount_OnFailure P s p =
      Inr (sint (failure_count p) < sint (max_failures p), ?p')"
    using tr lt by (rule OnFailure_transient)
  have inc: "sint (failure_count p + 1) = sint (failure_count p) + 1"
    using lt by (simp add: sint_increment not_INT_MAX_iff)
  then have c': "sint (failure_count ?p') = sint (failure_count p) + 1"
    by simp
  have "LimitedErrorCount_OnFailure_seq P ss ?p' =
           Inr (map (\<lambda>i. sint (failure_count ?p') + int i < sint (max_failures ?p')) [0..<length ss],
                ?p'\<lparr>failure_count := failure_count ?p' + of_nat (length ss)\<rparr>)"
    using Cons.prems c' by (intro Cons.IH) simp_all
  moreover have "map (\<lambda>i. sint (failure_count p) + int i < sint (max_failures p)) [0..<length (s # ss)]
      = (sint (failure_count p) < sint (max_failures p))
        # map (\<lambda>i. sint (failure_count ?p') + int i < sint (max_failures ?p')) [0..<length ss]"
    by (simp add: upt_conv_Cons map_Suc_upt [symmetric] del: upt_Suc) (simp add: inc add.assoc)
  ultimately show ?case
    using step by (simp add: add.assoc add.commute del: upt_Suc)
qed

text \<open>
  Once the count has reached the limit, every answer is false; the count grows by the
  number of transient failures.
\<close>

lemma OnFailure_seq_exhausted:
  assumes "sint (max_failures p) \<le> sint (failure_count p)"
    and "sint (failure_count p) + int (length (filter (\<lambda>s. \<not> P s) ss)) \<le> 2147483647"
  shows "LimitedErrorCount_OnFailure_seq P ss p =
           Inr (replicate (length ss) False,
                p\<lparr>failure_count := failure_count p + of_nat (length (filter (\<lambda>s. \<not> P s) ss))\<rparr>)"
  using assms
proof (induction ss arbitrary: p)
  case Nil
  show ?case by simp
next
  case (Cons s ss)
  show ?case
  proof (cases "P s")
    case True
    then have "LimitedErrorCount_OnFailure P s p = Inr (False, p)"
      by (simp add: LimitedErrorCount_OnFailure_def)
    moreover have "LimitedErrorCount_OnFailure_seq P ss p =
        Inr (replicate (length ss) False,
             p\<lparr>failure_count := failure_count p + of_nat (length (filter (\<lambda>s. \<not> P s) ss))\<rparr>)"
      using Cons.prems True by (intro Cons.IH) simp_all
    ultimately show ?thesis
      using True by simp
  next
    case False
    let ?p' = "p\<lparr>failure_count := failure_count p + 1\<rparr>"
    from Cons.prems False have lt: "sint (failure_count p) < 2147483647"
      by simp
    have inc: "sint (failure_count p + 1) = sint (failure_count p) + 1"
      using lt by (simp add: sint_increment not_INT_MAX_iff)
    have "LimitedErrorCount_OnFailure P s p = Inr (False, ?p')"
      using OnFailure_transient [of P s p] False lt Cons.prems(1) by simp
    moreover have "LimitedErrorCount_OnFailure_seq P ss ?p' =
        Inr (replicate (length ss) False,
             ?p'\<lparr>failure_count := failure_count ?p' + of_nat (length (filter (\<lambda>s. \<not> P s) ss))\<rparr>)"
      using Cons.prems False inc by (intro Cons.IH) simp_all
    ultimately show ?thesis
      using False by (simp add: add.assoc)
  qed
qed

lemma first_calls_True:
  "map (\<lambda>i. int i < m) [0..<n] = replicate (min (nat m) n) True @ replicate (n - nat m) False"
  by (rule nth_equalityI) (auto simp: nth_append)

text \<open>
  After \<open>INT_MAX\<close> minus the current count transient failures the counter holds
  \<open>INT_MAX\<close>; the next transient failure overflows it.
\<close>

lemma OnFailure_seq_replicate_overflow:
  assumes "\<not> P t" and "sint (failure_count p) + int n = 2147483647"
  shows "LimitedErrorCount_OnFailure_seq P (replicate (Suc n) t) p = Inl SignedOverflow"
proof -
  let ?p' = "p\<lparr>failure_count := failure_count p + of_nat n\<rparr>"
  have "LimitedErrorCount_OnFailure_seq P (replicate n t) p =
          Inr (map (\<lambda>i. sint (failure_count p) + int i < sint (max_failures p)) [0..<n], ?p')"
    using OnFailure_seq_transient [of "replicate n t" P p] assms by simp
  moreover have "sint (failure_count ?p') = 2147483647"
  proof -
    have "signed_take_bit 31 (sint (failure_count p) + signed_take_bit 31 (int n))
        = signed_take_bit (31::nat) (sint (failure_count p) + int n)"
      by (metis signed_take_bit_add signed_take_bit_signed_take_bit min.idem)
    then have "sint (failure_count p + of_nat n) = signed_take_bit 31 (sint (failure_count p) + int n)"
      by (simp add: sint_word_add signed_of_nat)
    then show ?thesis
      using assms(2) by (simp add: signed_take_bit_int_eq_self)
  qed
  then have "failure_count ?p' = INT_MAX"
    using not_INT_MAX_iff [of "failure_count ?p'"] by simp
  then have "LimitedErrorCount_OnFailure P t ?p' = Inl SignedOverflow"
    using assms(1) by (simp add: LimitedErrorCount_OnFailure_def)
  moreover have "replicate (Suc n) t = replicate n t @ [t]"
    by (simp add: replicate_append_same)
  ultimately show ?thesis
    by (simp only: OnFailure_seq_append) simp
qed

section \<open>Deadlines\<close>

text \<open>
  Where the deadline is representable the sum is the sum of the two numbers, and the
  constructor yields the policy that holds it; elsewhere the constructor has no result.
\<close>

lemma sint_deadline:
  assumes "deadline_representable d now"
  shows "sint (d * 1000000 + now) = sint d * 1000000 + sint now"
proof -
  have prod: "in_int64 (sint d * 1000000)" and sum: "in_int64 (sint d * 1000000 + sint now)"
    using assms by (simp_all add: deadline_representable_def)
  have "sint (d * 1000000) = signed_take_bit 63 (sint d * 1000000)"
    by (simp add: sint_word_mult)
  also have "\<dots> = sint d * 1000000"
    using prod by (simp add: in_int64_def signed_take_bit_int_eq_self)
  finally have "sint (d * 1000000 + now) = signed_take_bit 63 (sint d * 1000000 + sint now)"
    by (simp add: sint_word_add)
  also have "\<dots> = sint d * 1000000 + sint now"
    using sum by (simp add: in_int64_def signed_take_bit_int_eq_self)
  finally show ?thesis .
qed

lemma ctor_representable:
  assumes "deadline_representable d now"
  shows "LimitedDurationRetryPolicy_ctor now d =
           Inr \<lparr>max_duration = d, deadline = d * 1000000 + now\<rparr>"
  using assms by (simp add: LimitedDurationRetryPolicy_ctor_def chrono_plus_def)

lemma ctor_Inr_iff:
  "LimitedDurationRetryPolicy_ctor now d = Inr q \<longleftrightarrow>
     deadline_representable d now \<and> q = \<lparr>max_duration = d, deadline = d * 1000000 + now\<rparr>"
  by (auto simp: LimitedDurationRetryPolicy_ctor_def chrono_plus_def)

text \<open>
  Objects in the store: a sequence of calls on a duration policy, with every \<open>clone\<close> at
  a clock reading from which the deadline is representable, returns and leaves that object
  as it was.
\<close>

lemma calls_keep_LimitedDuration:
  assumes "a < length g" and "g ! a = LimitedDuration q"
    and "\<forall>now. clone_call now \<in> set cs \<longrightarrow> deadline_representable (max_duration q) now"
  shows "\<exists>g'. calls P cs a g = Inr g' \<and> a < length g' \<and> g' ! a = LimitedDuration q"
  using assms
proof (induction cs arbitrary: g)
  case Nil
  then show ?case by simp
next
  case (Cons c cs)
  have rest: "\<forall>now. clone_call now \<in> set cs \<longrightarrow> deadline_representable (max_duration q) now"
    using Cons.prems(3) by simp
  show ?case
  proof (cases c)
    case (OnFailure_call now s)
    have "OnFailure P now s a g = Inr (\<not> P s \<and> now <s deadline q, g)"
      using Cons.prems(1,2)
      by (simp add: OnFailure_def LimitedDuration_OnFailure_def list_update_same_conv)
    then show ?thesis
      using OnFailure_call Cons.IH [of g] Cons.prems(1,2) rest by simp
  next
    case (clone_call now)
    let ?c = "LimitedDuration \<lparr>max_duration = max_duration q,
                               deadline = max_duration q * 1000000 + now\<rparr>"
    have "deadline_representable (max_duration q) now"
      using Cons.prems(3) clone_call by simp
    then have "clone now a g = Inr (length g, g @ [?c])"
      using Cons.prems(1,2)
      by (simp add: clone_def LimitedDurationRetryPolicy_copy_def ctor_representable)
    moreover have "a < length (g @ [?c])" and "(g @ [?c]) ! a = LimitedDuration q"
      using Cons.prems(1,2) by (simp_all add: nth_append)
    ultimately show ?thesis
      using clone_call Cons.IH [of "g @ [?c]"] rest by simp
  qed
qed

section \<open>Permanent failures\<close>

text \<open>
  Claim C1. For a status that \<open>IsPermanentFailure\<close> classifies as permanent, \<open>OnFailure\<close>
  returns false (and returns: no fault), for the error-count policy whatever its failure
  count and limit are, and for the duration policy whatever the clock reading and the
  deadline are.
\<close>

theorem permanent_failure_never_retried:
  assumes "IsPermanentFailure status"
  shows "LimitedErrorCount_OnFailure IsPermanentFailure status p = Inr (False, p) \<and>
         LimitedDuration_OnFailure IsPermanentFailure now status q = Inr (False, q)"
  using assms by (simp add: LimitedErrorCount_OnFailure_def LimitedDuration_OnFailure_def)

theorem permanent_failure_never_retried_witness:
  "example_IsPermanentFailure Permanent \<and>
   LimitedErrorCount_OnFailure example_IsPermanentFailure Permanent
       \<lparr>failure_count = 1, max_failures = 3\<rparr>
     = Inr (False, \<lparr>failure_count = 1, max_failures = 3\<rparr>) \<and>
   LimitedDuration_OnFailure example_IsPermanentFailure 50 Permanent
       \<lparr>max_duration = 100, deadline = 100\<rparr>
     = Inr (False, \<lparr>max_duration = 100, deadline = 100\<rparr>)"
  using permanent_failure_never_retried
    [of example_IsPermanentFailure Permanent "\<lparr>failure_count = 1, max_failures = 3\<rparr>"
        50 "\<lparr>max_duration = 100, deadline = 100\<rparr>"]
  by simp

section \<open>The error-count policy on transient failures\<close>

text \<open>
  Claim C2, as stated, speaks of every sequence of consecutive transient failures. The
  counter is an \<open>int\<close> that every transient failure increments, whatever the answer:
  after \<open>INT_MAX\<close> = 2147483647 of them it holds \<open>INT_MAX\<close>, and call number
  2147483648 increments it once more. That is a signed overflow: the call has no defined
  result, so it does not "return false". Shown here for the limit 0.
\<close>

theorem transient_failures_overflow:
  "LimitedErrorCount_OnFailure_seq example_IsPermanentFailure (replicate 2147483648 Transient)
     (LimitedErrorCountRetryPolicy_ctor 0) = Inl SignedOverflow"
  using OnFailure_seq_replicate_overflow
    [of example_IsPermanentFailure Transient "LimitedErrorCountRetryPolicy_ctor 0" 2147483647]
  by (simp add: LimitedErrorCountRetryPolicy_ctor_def)

text \<open>
  Claim C2, amended to the sequences the counter can count. For every limit
  \<open>m \<ge> 0\<close> and every sequence of at most \<open>INT_MAX\<close> transient failures fed to a
  fresh \<open>LimitedErrorCountRetryPolicy(m)\<close>, every call returns; the answers are true for the
  first \<open>m\<close> calls and false from call \<open>m + 1\<close> on, and the counter ends at the
  number of calls. With the limit 0 every answer is false.
\<close>

theorem transient_failures_up_to_INT_MAX:
  assumes "0 \<le> sint m"
    and "\<forall>s \<in> set ss. \<not> IsPermanentFailure s"
    and "length ss \<le> 2147483647"
  shows "LimitedErrorCount_OnFailure_seq IsPermanentFailure ss (LimitedErrorCountRetryPolicy_ctor m) =
           Inr (replicate (min (nat (sint m)) (length ss)) True
                  @ replicate (length ss - nat (sint m)) False,
                \<lparr>failure_count = of_nat (length ss), max_failures = m\<rparr>) \<and>
         LimitedErrorCount_OnFailure_seq IsPermanentFailure ss (LimitedErrorCountRetryPolicy_ctor 0) =
           Inr (replicate (length ss) False,
                \<lparr>failure_count = of_nat (length ss), max_failures = 0\<rparr>)"
proof -
  have "LimitedErrorCount_OnFailure_seq IsPermanentFailure ss (LimitedErrorCountRetryPolicy_ctor k) =
          Inr (map (\<lambda>i. int i < sint k) [0..<length ss],
               \<lparr>failure_count = of_nat (length ss), max_failures = k\<rparr>)" for k
    using OnFailure_seq_transient [of ss IsPermanentFailure "LimitedErrorCountRetryPolicy_ctor k"] assms(2,3)
    by (simp add: LimitedErrorCountRetryPolicy_ctor_def)
  from this [of m] this [of 0] show ?thesis
    by (simp add: first_calls_True map_replicate_const)
qed

theorem transient_failures_up_to_INT_MAX_witness:
  "0 \<le> sint (2 :: 32 word) \<and>
   \<not> example_IsPermanentFailure Transient \<and>
   length [Transient, Transient, Transient] \<le> 2147483647 \<and>
   LimitedErrorCount_OnFailure_seq example_IsPermanentFailure [Transient, Transient, Transient]
       (LimitedErrorCountRetryPolicy_ctor 2)
     = Inr ([True, True, False], \<lparr>failure_count = 3, max_failures = 2\<rparr>)"
  using transient_failures_up_to_INT_MAX
    [of 2 "[Transient, Transient, Transient]" example_IsPermanentFailure]
  by (simp add: numeral_3_eq_3)

section \<open>The duration policy on transient failures\<close>

text \<open>
  Claim C3. For a status that is not permanent, \<open>OnFailure\<close> of the duration policy
  returns true if and only if the clock reading is strictly before the deadline, and leaves
  the object as it is. A policy constructed at \<open>t0\<close> with 100 milliseconds, where the
  clock can read \<open>t0\<close> plus 150 milliseconds (150000000 ticks), exists, has the deadline
  \<open>t0\<close> plus 100 milliseconds, and answers true at \<open>t0\<close> plus 50 milliseconds and
  false at \<open>t0\<close> plus 150 milliseconds.
\<close>

theorem LimitedDuration_retries_before_deadline:
  assumes "\<not> IsPermanentFailure status"
  shows "LimitedDuration_OnFailure IsPermanentFailure now status q
           = Inr (sint now < sint (deadline q), q) \<and>
         (sint t0 + 150000000 \<le> 9223372036854775807 \<longrightarrow>
            LimitedDurationRetryPolicy_ctor t0 100
              = Inr \<lparr>max_duration = 100, deadline = t0 + 100000000\<rparr> \<and>
            sint (t0 + 100000000) = sint t0 + 100000000 \<and>
            LimitedDuration_OnFailure IsPermanentFailure (t0 + 50000000) status
                \<lparr>max_duration = 100, deadline = t0 + 100000000\<rparr>
              = Inr (True, \<lparr>max_duration = 100, deadline = t0 + 100000000\<rparr>) \<and>
            LimitedDuration_OnFailure IsPermanentFailure (t0 + 150000000) status
                \<lparr>max_duration = 100, deadline = t0 + 100000000\<rparr>
              = Inr (False, \<lparr>max_duration = 100, deadline = t0 + 100000000\<rparr>))"
proof -
  have iff: "LimitedDuration_OnFailure IsPermanentFailure t status p
      = Inr (sint t < sint (deadline p), p)" for t p
    using assms by (simp add: LimitedDuration_OnFailure_def word_sless_alt)
  have scenario: "LimitedDurationRetryPolicy_ctor t0 100
        = Inr \<lparr>max_duration = 100, deadline = t0 + 100000000\<rparr> \<and>
      sint (t0 + 100000000) = sint t0 + 100000000 \<and>
      sint (t0 + 50000000) < sint (t0 + 100000000) \<and>
      \<not> sint (t0 + 150000000) < sint (t0 + 100000000)"
    if fits: "sint t0 + 150000000 \<le> 9223372036854775807"
  proof -
    have lo: "- 9223372036854775808 \<le> sint t0"
      using sint_ge [of t0] by simp
    have plus: "sint (t0 + k) = sint t0 + sint k"
      if "0 \<le> sint k" and "sint k \<le> 150000000" for k :: "64 word"
      using that lo fits by (simp add: sint_word_add signed_take_bit_int_eq_self)
    have "deadline_representable 100 t0"
      using lo fits by (simp add: deadline_representable_def in_int64_def)
    then have "LimitedDurationRetryPolicy_ctor t0 100
        = Inr \<lparr>max_duration = 100, deadline = t0 + 100000000\<rparr>"
      by (simp add: ctor_representable add.commute)
    then show ?thesis
      using plus [of 100000000] plus [of 50000000] plus [of 150000000] by simp
  qed
  show ?thesis
  proof (intro conjI impI)
    show "LimitedDuration_OnFailure IsPermanentFailure now status q
        = Inr (sint now < sint (deadline q), q)"
      by (rule iff)
  next
    assume fits: "sint t0 + 150000000 \<le> 9223372036854775807"
    show "LimitedDurationRetryPolicy_ctor t0 100
        = Inr \<lparr>max_duration = 100, deadline = t0 + 100000000\<rparr>"
      and "sint (t0 + 100000000) = sint t0 + 100000000"
      using scenario [OF fits] by simp_all
    show "LimitedDuration_OnFailure IsPermanentFailure (t0 + 50000000) status
        \<lparr>max_duration = 100, deadline = t0 + 100000000\<rparr>
      = Inr (True, \<lparr>max_duration = 100, deadline = t0 + 100000000\<rparr>)"
      using scenario [OF fits] by (simp only: iff) simp
    show "LimitedDuration_OnFailure IsPermanentFailure (t0 + 150000000) status
        \<lparr>max_duration = 100, deadline = t0 + 100000000\<rparr>
      = Inr (False, \<lparr>max_duration = 100, deadline = t0 + 100000000\<rparr>)"
      using scenario [OF fits] by (simp only: iff) simp
  qed
qed

theorem LimitedDuration_retries_before_deadline_witness:
  "\<not> example_IsPermanentFailure Transient \<and>
   sint (1000000000 :: 64 word) + 150000000 \<le> 9223372036854775807 \<and>
   LimitedDurationRetryPolicy_ctor 1000000000 100
     = Inr \<lparr>max_duration = 100, deadline = 1100000000\<rparr> \<and>
   LimitedDuration_OnFailure example_IsPermanentFailure 1050000000 Transient
       \<lparr>max_duration = 100, deadline = 1100000000\<rparr>
     = Inr (True, \<lparr>max_duration = 100, deadline = 1100000000\<rparr>) \<and>
   LimitedDuration_OnFailure example_IsPermanentFailure 1150000000 Transient
       \<lparr>max_duration = 100, deadline = 1100000000\<rparr>
     = Inr (False, \<lparr>max_duration = 100, deadline = 1100000000\<rparr>) \<and>
   LimitedDuration_OnFailure example_IsPermanentFailure 1100000000 Transient
       \<lparr>max_duration = 100, deadline = 1100000000\<rparr>
     = Inr (False, \<lparr>max_duration = 100, deadline = 1100000000\<rparr>)"
  using LimitedDuration_retries_before_deadline
    [of example_IsPermanentFailure Transient 1100000000
        "\<lparr>max_duration = 100, deadline = 1100000000\<rparr>" 1000000000]
  by simp

section \<open>A permanent failure between two transient ones\<close>

text \<open>
  Claim C4, as stated, expects the answers true, false, false from a fresh
  \<open>LimitedErrorCountRetryPolicy(3)\<close> fed a transient, a permanent and a transient failure.
  The answers of the code are not these.
\<close>

theorem transient_permanent_transient_counterexample:
  "map_sum id fst
     (LimitedErrorCount_OnFailure_seq example_IsPermanentFailure [Transient, Permanent, Transient]
        (LimitedErrorCountRetryPolicy_ctor 3))
   \<noteq> Inr [True, False, False]"
  by (simp add: LimitedErrorCount_OnFailure_def LimitedErrorCountRetryPolicy_ctor_def INT_MAX_def
      word_sless_alt)

text \<open>
  Claim C4, amended. The answers are true, false, true: the permanent failure is answered
  false without touching the counter, nothing remembers it, and the third call compares the
  count 1 with the limit 3. The counter ends at 2.
\<close>

theorem transient_permanent_transient:
  assumes "\<not> IsPermanentFailure t" and "IsPermanentFailure p"
  shows "LimitedErrorCount_OnFailure_seq IsPermanentFailure [t, p, t]
           (LimitedErrorCountRetryPolicy_ctor 3)
         = Inr ([True, False, True], \<lparr>failure_count = 2, max_failures = 3\<rparr>)"
  using assms
  by (simp add: LimitedErrorCount_OnFailure_def LimitedErrorCountRetryPolicy_ctor_def INT_MAX_def
      word_sless_alt)

theorem transient_permanent_transient_witness:
  "\<not> example_IsPermanentFailure Transient \<and> example_IsPermanentFailure Permanent \<and>
   LimitedErrorCount_OnFailure_seq example_IsPermanentFailure [Transient, Permanent, Transient]
           (LimitedErrorCountRetryPolicy_ctor 3)
         = Inr ([True, False, True], \<lparr>failure_count = 2, max_failures = 3\<rparr>)"
  using transient_permanent_transient [of example_IsPermanentFailure Transient Permanent]
  by simp

section \<open>What a call writes\<close>

text \<open>
  Claim C5. On a permanent status \<open>OnFailure\<close> of the error-count policy returns false
  and the object is unchanged, the count included. Whenever a call returns, the limit is
  unchanged, and the count is either unchanged (permanent status) or the old count plus
  exactly one, without wrap-around (transient status): the count changes only on a
  transient failure, and then by one. Every transient call on a count other than
  \<open>INT_MAX\<close> returns, with the count incremented.
\<close>

theorem failure_count_frame:
  "(IsPermanentFailure status \<longrightarrow>
      LimitedErrorCount_OnFailure IsPermanentFailure status p = Inr (False, p)) \<and>
   (LimitedErrorCount_OnFailure IsPermanentFailure status p = Inr (r, p') \<longrightarrow>
      max_failures p' = max_failures p \<and>
      (if IsPermanentFailure status then failure_count p' = failure_count p
       else failure_count p' = failure_count p + 1 \<and>
            sint (failure_count p') = sint (failure_count p) + 1)) \<and>
   (\<not> IsPermanentFailure status \<and> failure_count p \<noteq> INT_MAX \<longrightarrow>
      LimitedErrorCount_OnFailure IsPermanentFailure status p =
        Inr (failure_count p <s max_failures p, p\<lparr>failure_count := failure_count p + 1\<rparr>))"
  by (auto simp: LimitedErrorCount_OnFailure_def sint_increment split: if_splits)

theorem failure_count_frame_witness:
  "example_IsPermanentFailure Permanent \<and>
   LimitedErrorCount_OnFailure example_IsPermanentFailure Permanent
       \<lparr>failure_count = 1, max_failures = 3\<rparr>
     = Inr (False, \<lparr>failure_count = 1, max_failures = 3\<rparr>) \<and>
   \<not> example_IsPermanentFailure Transient \<and> (1 :: 32 word) \<noteq> INT_MAX \<and>
   LimitedErrorCount_OnFailure example_IsPermanentFailure Transient
       \<lparr>failure_count = 1, max_failures = 3\<rparr>
     = Inr (True, \<lparr>failure_count = 2, max_failures = 3\<rparr>) \<and>
   sint (failure_count \<lparr>failure_count = 2 :: 32 word, max_failures = 3 :: 32 word\<rparr>)
     = sint (failure_count \<lparr>failure_count = 1 :: 32 word, max_failures = 3 :: 32 word\<rparr>) + 1"
  using failure_count_frame
      [of example_IsPermanentFailure Permanent "\<lparr>failure_count = 1, max_failures = 3\<rparr>"
          False "\<lparr>failure_count = 1, max_failures = 3\<rparr>"]
    failure_count_frame
      [of example_IsPermanentFailure Transient "\<lparr>failure_count = 1, max_failures = 3\<rparr>"
          True "\<lparr>failure_count = 2, max_failures = 3\<rparr>"]
  by (simp add: INT_MAX_def word_sless_alt)

section \<open>clone\<close>

text \<open>
  Claim C6. \<open>clone\<close> on an error-count policy \<open>p\<close>, whatever its failure count,
  returns the address of a new object (\<open>length h\<close>, which no object of \<open>h\<close> has);
  the new object is the freshly constructed policy for the limit of \<open>p\<close>, with failure
  count 0, so every later call on it does what it does on a fresh policy; the objects of
  \<open>h\<close>, the original among them, are unchanged. A later \<open>OnFailure\<close> on the clone
  answers from the count 0 and does not write the original.
\<close>

theorem clone_resets_failure_count:
  assumes "this < length h" and "h ! this = LimitedErrorCount p"
  shows "clone now this h =
           Inr (length h,
                h @ [LimitedErrorCount (LimitedErrorCountRetryPolicy_ctor (max_failures p))]) \<and>
         LimitedErrorCountRetryPolicy_ctor (max_failures p)
           = \<lparr>failure_count = 0, max_failures = max_failures p\<rparr> \<and>
         (h @ [LimitedErrorCount (LimitedErrorCountRetryPolicy_ctor (max_failures p))]) ! this
           = LimitedErrorCount p \<and>
         (OnFailure IsPermanentFailure t status (length h)
              (h @ [LimitedErrorCount (LimitedErrorCountRetryPolicy_ctor (max_failures p))])
            = Inr (r, h') \<longrightarrow>
          r = (\<not> IsPermanentFailure status \<and> 0 <s max_failures p) \<and>
          h' ! this = LimitedErrorCount p)"
proof -
  let ?c = "LimitedErrorCount (LimitedErrorCountRetryPolicy_ctor (max_failures p))"
  have "clone now this h = Inr (length h, h @ [?c])"
    using assms by (simp add: clone_def LimitedErrorCountRetryPolicy_copy_def)
  moreover have "(h @ [?c]) ! this = LimitedErrorCount p"
    using assms by (simp add: nth_append)
  moreover have "r = (\<not> IsPermanentFailure status \<and> 0 <s max_failures p) \<and>
      h' ! this = LimitedErrorCount p"
    if "OnFailure IsPermanentFailure t status (length h) (h @ [?c]) = Inr (r, h')"
    using that assms
    by (auto simp: OnFailure_def LimitedErrorCount_OnFailure_def LimitedErrorCountRetryPolicy_ctor_def
        nth_append split: if_splits)
  ultimately show ?thesis
    by (simp add: LimitedErrorCountRetryPolicy_ctor_def)
qed

theorem clone_resets_failure_count_witness:
  "(0::nat) < length [LimitedErrorCount \<lparr>failure_count = 2, max_failures = 2\<rparr>] \<and>
   clone 0 0 [LimitedErrorCount \<lparr>failure_count = 2, max_failures = 2\<rparr>] =
     Inr (1, [LimitedErrorCount \<lparr>failure_count = 2, max_failures = 2\<rparr>,
              LimitedErrorCount \<lparr>failure_count = 0, max_failures = 2\<rparr>]) \<and>
   OnFailure example_IsPermanentFailure 0 Transient 1
       [LimitedErrorCount \<lparr>failure_count = 2, max_failures = 2\<rparr>,
        LimitedErrorCount \<lparr>failure_count = 0, max_failures = 2\<rparr>] =
     Inr (True, [LimitedErrorCount \<lparr>failure_count = 2, max_failures = 2\<rparr>,
                 LimitedErrorCount \<lparr>failure_count = 1, max_failures = 2\<rparr>]) \<and>
   OnFailure example_IsPermanentFailure 0 Transient 0
       [LimitedErrorCount \<lparr>failure_count = 2, max_failures = 2\<rparr>,
        LimitedErrorCount \<lparr>failure_count = 0, max_failures = 2\<rparr>] =
     Inr (False, [LimitedErrorCount \<lparr>failure_count = 3, max_failures = 2\<rparr>,
                  LimitedErrorCount \<lparr>failure_count = 0, max_failures = 2\<rparr>])"
  using clone_resets_failure_count
    [of 0 "[LimitedErrorCount \<lparr>failure_count = 2, max_failures = 2\<rparr>]"
        "\<lparr>failure_count = 2, max_failures = 2\<rparr>" 0 example_IsPermanentFailure 0 Transient True
        "[LimitedErrorCount \<lparr>failure_count = 2, max_failures = 2\<rparr>,
          LimitedErrorCount \<lparr>failure_count = 1, max_failures = 2\<rparr>]"]
  by (simp add: OnFailure_def LimitedErrorCount_OnFailure_def LimitedErrorCountRetryPolicy_ctor_def
      INT_MAX_def word_sless_alt)

text \<open>
  Claim C7, as stated, is for every duration policy. The deadline of the clone is the sum
  \<open>max_duration_ + Clock::now()\<close> in 64-bit arithmetic. The policy constructed at the
  epoch with 9223372036854 milliseconds exists, and its clone one second later
  (1000000000 ticks) would have a deadline above the largest count: the sum overflows and
  the clone has no defined deadline.
\<close>

theorem clone_deadline_overflow:
  "LimitedDurationRetryPolicy_ctor 0 9223372036854
     = Inr \<lparr>max_duration = 9223372036854, deadline = 9223372036854000000\<rparr> \<and>
   clone 1000000000 0
       [LimitedDuration \<lparr>max_duration = 9223372036854, deadline = 9223372036854000000\<rparr>]
     = Inl SignedOverflow"
  by (simp add: clone_def LimitedDurationRetryPolicy_copy_def LimitedDurationRetryPolicy_ctor_def
      chrono_plus_def deadline_representable_def in_int64_def)

text \<open>
  Claim C7, amended to the clock readings from which the deadline is representable. Let
  \<open>q\<close> be the duration policy constructed at \<open>t0\<close> with duration \<open>d\<close>. \<open>clone\<close> at a
  clock reading \<open>now\<close> for which \<open>now\<close> plus \<open>d\<close> is representable returns a new object
  with the same duration, the object the constructor yields at \<open>now\<close>; its deadline is
  \<open>now\<close> plus \<open>d\<close>, computed from the clock at the time of the clone, and equal to the
  deadline of \<open>q\<close> only if the clock still reads \<open>t0\<close>.
\<close>

theorem clone_recomputes_deadline:
  assumes "this < length h"
    and "h ! this = LimitedDuration q"
    and "LimitedDurationRetryPolicy_ctor t0 d = Inr q"
    and "deadline_representable d now"
  shows "clone now this h =
           Inr (length h,
                h @ [LimitedDuration \<lparr>max_duration = d, deadline = d * 1000000 + now\<rparr>]) \<and>
         LimitedDurationRetryPolicy_ctor now d
           = Inr \<lparr>max_duration = d, deadline = d * 1000000 + now\<rparr> \<and>
         sint (d * 1000000 + now) = sint now + sint d * 1000000 \<and>
         (d * 1000000 + now = deadline q \<longleftrightarrow> now = t0)"
proof -
  have q: "q = \<lparr>max_duration = d, deadline = d * 1000000 + t0\<rparr>"
    using assms(3) by (simp add: ctor_Inr_iff)
  have "clone now this h =
      Inr (length h, h @ [LimitedDuration \<lparr>max_duration = d, deadline = d * 1000000 + now\<rparr>])"
    using assms(1,2,4) q
    by (simp add: clone_def LimitedDurationRetryPolicy_copy_def ctor_representable)
  moreover have "sint (d * 1000000 + now) = sint now + sint d * 1000000"
    using sint_deadline [OF assms(4)] by simp
  ultimately show ?thesis
    using assms(4) q by (simp add: ctor_representable)
qed

theorem clone_recomputes_deadline_witness:
  "(0::nat) < length [LimitedDuration \<lparr>max_duration = 100, deadline = 1100000000\<rparr>] \<and>
   LimitedDurationRetryPolicy_ctor 1000000000 100
     = Inr \<lparr>max_duration = 100, deadline = 1100000000\<rparr> \<and>
   deadline_representable 100 1070000000 \<and>
   clone 1070000000 0 [LimitedDuration \<lparr>max_duration = 100, deadline = 1100000000\<rparr>] =
     Inr (1, [LimitedDuration \<lparr>max_duration = 100, deadline = 1100000000\<rparr>,
              LimitedDuration \<lparr>max_duration = 100, deadline = 1170000000\<rparr>])"
  using clone_recomputes_deadline
    [of 0 "[LimitedDuration \<lparr>max_duration = 100, deadline = 1100000000\<rparr>]"
        "\<lparr>max_duration = 100, deadline = 1100000000\<rparr>" 1000000000 100 1070000000]
  by (simp add: LimitedDurationRetryPolicy_ctor_def chrono_plus_def deadline_representable_def
      in_int64_def)

section \<open>The deadline is fixed\<close>

text \<open>
  Claim C8, as stated, is for every instance. The constructor computes
  \<open>max_duration_ + Clock::now()\<close> in 64-bit arithmetic: at the clock reading 1000000000
  (one second after the epoch) with 9223372035855 milliseconds the sum overflows, and the
  instance has no defined deadline.
\<close>

theorem constructor_deadline_overflow:
  "LimitedDurationRetryPolicy_ctor 1000000000 9223372035855 = Inl SignedOverflow"
  by (simp add: LimitedDurationRetryPolicy_ctor_def chrono_plus_def deadline_representable_def
      in_int64_def)

text \<open>
  Claim C8, amended to the representable deadlines. Where \<open>t0\<close> plus \<open>d\<close> is
  representable, the constructor at \<open>t0\<close> with duration \<open>d\<close> yields a policy whose
  deadline is \<open>t0\<close> plus \<open>d\<close>. Take it as a new object of any store \<open>h\<close>: every sequence
  of \<open>OnFailure\<close> and \<open>clone\<close> calls on it, with any statuses and at any clock readings,
  those of the \<open>clone\<close> calls being readings from which the deadline of the clone is
  representable, returns, and afterwards the object is the one constructed: the same
  duration and the same deadline.
\<close>

theorem deadline_never_recomputed:
  assumes "deadline_representable d t0"
    and "\<forall>now. clone_call now \<in> set cs \<longrightarrow> deadline_representable d now"
  shows "\<exists>q h'. LimitedDurationRetryPolicy_ctor t0 d = Inr q \<and>
           max_duration q = d \<and>
           sint (deadline q) = sint t0 + sint d * 1000000 \<and>
           calls IsPermanentFailure cs (length h) (h @ [LimitedDuration q]) = Inr h' \<and>
           length h < length h' \<and>
           h' ! length h = LimitedDuration q"
proof -
  let ?q = "\<lparr>max_duration = d, deadline = d * 1000000 + t0\<rparr>"
  have "LimitedDurationRetryPolicy_ctor t0 d = Inr ?q"
    using assms(1) by (rule ctor_representable)
  moreover have "sint (deadline ?q) = sint t0 + sint d * 1000000"
    using sint_deadline [OF assms(1)] by simp
  moreover have "\<exists>h'. calls IsPermanentFailure cs (length h) (h @ [LimitedDuration ?q]) = Inr h' \<and>
      length h < length h' \<and> h' ! length h = LimitedDuration ?q"
    using calls_keep_LimitedDuration
      [of "length h" "h @ [LimitedDuration ?q]" ?q cs IsPermanentFailure] assms(2)
    by simp
  ultimately show ?thesis
    by auto
qed

theorem deadline_never_recomputed_witness:
  "deadline_representable 100 1000000000 \<and>
   deadline_representable 100 1070000000 \<and>
   LimitedDurationRetryPolicy_ctor 1000000000 100
     = Inr \<lparr>max_duration = 100, deadline = 1100000000\<rparr> \<and>
   calls example_IsPermanentFailure
       [OnFailure_call 1050000000 Transient, clone_call 1070000000,
        OnFailure_call 1150000000 Transient]
       0 [LimitedDuration \<lparr>max_duration = 100, deadline = 1100000000\<rparr>]
     = Inr [LimitedDuration \<lparr>max_duration = 100, deadline = 1100000000\<rparr>,
            LimitedDuration \<lparr>max_duration = 100, deadline = 1170000000\<rparr>]"
  using deadline_never_recomputed
    [of 100 1000000000
        "[OnFailure_call 1050000000 Transient, clone_call 1070000000,
          OnFailure_call 1150000000 Transient]"
        example_IsPermanentFailure "[]"]
  by (simp add: LimitedDurationRetryPolicy_ctor_def chrono_plus_def deadline_representable_def
      in_int64_def OnFailure_def clone_def LimitedDuration_OnFailure_def
      LimitedDurationRetryPolicy_copy_def word_sless_alt)

section \<open>Negative limits\<close>

text \<open>
  Claim C9, as stated, has the constructor reject a negative limit. The constructor has
  no check and no way to fail: for the limit -1 it yields a policy that holds -1 as its
  limit, and that policy answers calls.
\<close>

theorem negative_max_failures_accepted:
  "max_failures (LimitedErrorCountRetryPolicy_ctor (- 1)) = - 1 \<and>
   sint (max_failures (LimitedErrorCountRetryPolicy_ctor (- 1))) = - 1 \<and>
   LimitedErrorCount_OnFailure example_IsPermanentFailure Transient
       (LimitedErrorCountRetryPolicy_ctor (- 1))
     = Inr (False, \<lparr>failure_count = 1, max_failures = - 1\<rparr>)"
  by (simp add: LimitedErrorCountRetryPolicy_ctor_def LimitedErrorCount_OnFailure_def INT_MAX_def
      word_sless_alt)

text \<open>
  Claim C9, amended. Constructing a \<open>LimitedErrorCountRetryPolicy\<close> with a negative
  limit is accepted: the object has the failure count 0 and the negative limit as given,
  not clamped to 0.
\<close>

theorem constructor_stores_any_limit:
  assumes "sint n < 0"
  shows "LimitedErrorCountRetryPolicy_ctor n = \<lparr>failure_count = 0, max_failures = n\<rparr> \<and>
         sint (max_failures (LimitedErrorCountRetryPolicy_ctor n)) < 0 \<and>
         LimitedErrorCountRetryPolicy_ctor n \<noteq> LimitedErrorCountRetryPolicy_ctor 0"
  using assms by (auto simp: LimitedErrorCountRetryPolicy_ctor_def)

theorem constructor_stores_any_limit_witness:
  "sint (- 5 :: 32 word) < 0 \<and>
   LimitedErrorCountRetryPolicy_ctor (- 5) = \<lparr>failure_count = 0, max_failures = - 5\<rparr> \<and>
   sint (max_failures (LimitedErrorCountRetryPolicy_ctor (- 5))) = - 5"
  using constructor_stores_any_limit [of "- 5"]
  by (simp add: LimitedErrorCountRetryPolicy_ctor_def)

text \<open>
  Claim C10, as stated, has every later call on a policy with a negative limit return
  false. The counter is incremented by every transient failure, also when the answer is
  false: call number 2147483648 of a run of transient failures overflows it and has no
  defined result.
\<close>

theorem negative_limit_overflow:
  "LimitedErrorCount_OnFailure_seq example_IsPermanentFailure (replicate 2147483648 Transient)
     (LimitedErrorCountRetryPolicy_ctor (- 1)) = Inl SignedOverflow"
  using OnFailure_seq_replicate_overflow
    [of example_IsPermanentFailure Transient "LimitedErrorCountRetryPolicy_ctor (- 1)" 2147483647]
  by (simp add: LimitedErrorCountRetryPolicy_ctor_def)

text \<open>
  Claim C10, amended to the sequences the counter can count. For every negative limit the
  constructor yields a policy, and every sequence of failures, permanent and transient in
  any order, with at most \<open>INT_MAX\<close> transient ones gets the answer false at every
  call, just as the same sequence does with the limit 0; the counter ends at the number of
  transient failures.
\<close>

theorem negative_limit_never_retries:
  assumes "sint n < 0"
    and "length (filter (\<lambda>s. \<not> IsPermanentFailure s) ss) \<le> 2147483647"
  shows "LimitedErrorCount_OnFailure_seq IsPermanentFailure ss (LimitedErrorCountRetryPolicy_ctor n) =
           Inr (replicate (length ss) False,
                \<lparr>failure_count = of_nat (length (filter (\<lambda>s. \<not> IsPermanentFailure s) ss)),
                 max_failures = n\<rparr>) \<and>
         LimitedErrorCount_OnFailure_seq IsPermanentFailure ss (LimitedErrorCountRetryPolicy_ctor 0) =
           Inr (replicate (length ss) False,
                \<lparr>failure_count = of_nat (length (filter (\<lambda>s. \<not> IsPermanentFailure s) ss)),
                 max_failures = 0\<rparr>)"
  using assms
    OnFailure_seq_exhausted [of "LimitedErrorCountRetryPolicy_ctor n" IsPermanentFailure ss]
    OnFailure_seq_exhausted [of "LimitedErrorCountRetryPolicy_ctor 0" IsPermanentFailure ss]
  by (simp add: LimitedErrorCountRetryPolicy_ctor_def)

theorem negative_limit_never_retries_witness:
  "sint (- 1 :: 32 word) < 0 \<and>
   length (filter (\<lambda>s. \<not> example_IsPermanentFailure s) [Transient, Permanent, Transient])
     \<le> 2147483647 \<and>
   LimitedErrorCount_OnFailure_seq example_IsPermanentFailure [Transient, Permanent, Transient]
       (LimitedErrorCountRetryPolicy_ctor (- 1))
     = Inr ([False, False, False], \<lparr>failure_count = 2, max_failures = - 1\<rparr>)"
  using negative_limit_never_retries
    [of "- 1" example_IsPermanentFailure "[Transient, Permanent, Transient]"]
  by (simp add: numeral_3_eq_3)

end
